theory Spec2Isabelle
  imports Complex_Main
begin

section \<open>Data model of t265_precland_apriltags.py\<close>

text \<open>
  The script keeps its live data in module-level globals that the acquisition loop, the
  three scheduled senders and the autopilot callbacks read and write. The globals become
  one record that every operation takes and returns. Python floats are idealised as
  reals, Python ints are \<open>int\<close>.
\<close>

subsection \<open>4x4 homogeneous transforms\<close>

text \<open>
  Every transform of the script is a 4x4 numpy array. The shape is fixed by the type:
  four rows of four entries. \<open>mat_get H i j\<close> is \<open>H[i][j]\<close> and
  \<open>mat_set H i j v\<close> is \<open>H[i][j] = v\<close>; the script only ever uses the
  literal indices 0..3.
\<close>

datatype row4 = Row4 real real real real

datatype mat4 = Mat4 row4 row4 row4 row4

fun row_get :: "row4 \<Rightarrow> nat \<Rightarrow> real" where
  "row_get (Row4 a b c d) j =
     (if j = 0 then a else if j = 1 then b else if j = 2 then c else d)"

fun row_set :: "row4 \<Rightarrow> nat \<Rightarrow> real \<Rightarrow> row4" where
  "row_set (Row4 a b c d) j v =
     (if j = 0 then Row4 v b c d else if j = 1 then Row4 a v c d
      else if j = 2 then Row4 a b v d else Row4 a b c v)"

fun mat_row :: "mat4 \<Rightarrow> nat \<Rightarrow> row4" where
  "mat_row (Mat4 r0 r1 r2 r3) i =
     (if i = 0 then r0 else if i = 1 then r1 else if i = 2 then r2 else r3)"

definition mat_get :: "mat4 \<Rightarrow> nat \<Rightarrow> nat \<Rightarrow> real" where
  "mat_get H i j = row_get (mat_row H i) j"

fun mat_set :: "mat4 \<Rightarrow> nat \<Rightarrow> nat \<Rightarrow> real \<Rightarrow> mat4" where
  "mat_set (Mat4 r0 r1 r2 r3) i j v =
     (if i = 0 then Mat4 (row_set r0 j v) r1 r2 r3
      else if i = 1 then Mat4 r0 (row_set r1 j v) r2 r3
      else if i = 2 then Mat4 r0 r1 (row_set r2 j v) r3
      else Mat4 r0 r1 r2 (row_set r3 j v))"

fun row_add :: "row4 \<Rightarrow> row4 \<Rightarrow> row4" where
  "row_add (Row4 a b c d) (Row4 a' b' c' d') = Row4 (a + a') (b + b') (c + c') (d + d')"

fun row_scale :: "real \<Rightarrow> row4 \<Rightarrow> row4" where
  "row_scale k (Row4 a b c d) = Row4 (k * a) (k * b) (k * c) (k * d)"

text \<open>One row of a matrix product: the row vector times the right-hand matrix.\<close>

fun row_times :: "row4 \<Rightarrow> mat4 \<Rightarrow> row4" where
  "row_times (Row4 a b c d) (Mat4 r0 r1 r2 r3) =
     row_add (row_add (row_add (row_scale a r0) (row_scale b r1)) (row_scale c r2))
       (row_scale d r3)"

text \<open>\<open>A.dot(B)\<close> of numpy, on 4x4 arrays.\<close>

fun dot :: "mat4 \<Rightarrow> mat4 \<Rightarrow> mat4" where
  "dot (Mat4 r0 r1 r2 r3) B =
     Mat4 (row_times r0 B) (row_times r1 B) (row_times r2 B) (row_times r3 B)"

text \<open>
  \<open>tf.euler_matrix(ai, aj, ak, 'sxyz')\<close> of the transformations package: static
  frame, axes x, y, z, so first axis 0, parity 0, no repetition.
\<close>

definition euler_matrix :: "real \<Rightarrow> real \<Rightarrow> real \<Rightarrow> mat4" where
  "euler_matrix ai aj ak =
     (let si = sin ai; sj = sin aj; sk = sin ak;
          ci = cos ai; cj = cos aj; ck = cos ak;
          cc = ci * ck; cs = ci * sk; sc = si * ck; ss = si * sk
      in Mat4 (Row4 (cj * ck) (sj * sc - cs) (sj * cc + ss) 0)
              (Row4 (cj * sk) (sj * ss + cc) (sj * cs - sc) 0)
              (Row4 (- sj) (cj * si) (cj * ci) 0)
              (Row4 0 0 0 1))"

definition identity4 :: mat4 where
  "identity4 = Mat4 (Row4 1 0 0 0) (Row4 0 1 0 0) (Row4 0 0 1 0) (Row4 0 0 0 1)"

text \<open>
  \<open>tf.quaternion_matrix([w, x, y, z])\<close> of the transformations package; its
  \<open>_EPS\<close> is four times the float64 machine epsilon.
\<close>

definition tf_EPS :: real where
  "tf_EPS = 4 / 2 ^ 52"

definition quaternion_matrix :: "real \<times> real \<times> real \<times> real \<Rightarrow> mat4" where
  "quaternion_matrix q =
     (case q of (w, x, y, z) \<Rightarrow>
        let n = w * w + x * x + y * y + z * z in
        if n < tf_EPS then identity4
        else
          let k = sqrt (2 / n);
              q0 = w * k; q1 = x * k; q2 = y * k; q3 = z * k
          in Mat4
               (Row4 (1 - q2 * q2 - q3 * q3) (q1 * q2 - q3 * q0) (q1 * q3 + q2 * q0) 0)
               (Row4 (q1 * q2 + q3 * q0) (1 - q1 * q1 - q3 * q3) (q2 * q3 - q1 * q0) 0)
               (Row4 (q1 * q3 - q2 * q0) (q2 * q3 + q1 * q0) (1 - q1 * q1 - q2 * q2) 0)
               (Row4 0 0 0 1))"

subsection \<open>Samples, configuration and the globals\<close>

text \<open>The fields of a pose sample (\<open>pose.get_pose_data()\<close>) that the script reads.\<close>

record pose_data =
  translation :: "real \<times> real \<times> real"
  rotation :: "real \<times> real \<times> real \<times> real"
  tracker_confidence :: int

text \<open>An ATTITUDE message as delivered to the listener: only \<open>yaw\<close> is read.\<close>

record attitude =
  yaw :: real

text \<open>A detection of the AprilTag detector: its id and its translation \<open>pose_t\<close>.\<close>

record tag =
  tag_id :: int
  pose_t :: "real \<times> real \<times> real"

text \<open>
  The module-level constants and the parsed options the modelled code depends on. The
  two mount transforms are chosen at start-up from \<open>camera_orientation\<close>.
\<close>

record config =
  body_offset_enabled :: int
  body_offset_x :: real
  body_offset_y :: real
  body_offset_z :: real
  compass_enabled :: int
  tag_landing_id :: int
  H_aeroRef_T265Ref :: mat4
  H_T265body_aeroBody :: mat4

record state =
  data :: "pose_data option"
  current_confidence :: "int option"
  H_aeroRef_aeroBody :: "mat4 option"
  H_camera_tag :: "mat4 option"
  is_landing_tag_detected :: bool
  heading_north_yaw :: "real option"
  scale_factor :: real
  current_time :: int

text \<open>The globals as the script initialises them before the scheduler starts.\<close>

definition initial_state :: state where
  "initial_state =
     \<lparr>data = None, current_confidence = None, H_aeroRef_aeroBody = None,
      H_camera_tag = None, is_landing_tag_detected = False, heading_north_yaw = None,
      scale_factor = 1, current_time = 0\<rparr>"

subsection \<open>The autopilot link and the log\<close>

text \<open>
  The messages the modelled senders build. \<open>Landing_target t ax ay dist\<close> carries the
  time, the two angular offsets and the distance; its other fields are the constants
  of the source. \<open>Vision_position_delta c\<close> carries the confidence percentage, its
  other fields are zero. \<open>Statustext sev txt\<close> is the human-readable notification.
\<close>

datatype mav_msg =
  Landing_target int real real real
| Vision_position_delta real
| Statustext nat string

datatype log_entry =
  Info_tracking_confidence string
| Warning_z_zero
| Warning_invalid_confidence int
| Error_landing_target
| Error_confidence
| Info_first_attitude real
| Debug_updated_heading real

text \<open>
  Encoding, \<open>send_mavlink\<close> and \<open>flush\<close> of one message are one step of the link:
  it either hands the message over or raises. A link is the predicate telling which
  messages it accepts on this tick; the sender's \<open>except Exception\<close> catches a
  refusal.
\<close>

type_synonym link = "mav_msg \<Rightarrow> bool"

text \<open>What one run of a scheduled task leaves: the globals, the messages handed to
  the link in order, and the log lines.\<close>

type_synonym outcome = "state \<times> mav_msg list \<times> log_entry list"

section \<open>The confidence task\<close>

definition pose_data_confidence_level :: "string list" where
  "pose_data_confidence_level = [''Failed'', ''Low'', ''Medium'', ''High'']"

definition MAV_SEVERITY_INFO :: nat where
  "MAV_SEVERITY_INFO = 6"

definition send_confidence_level_dummy_message :: "link \<Rightarrow> state \<Rightarrow> outcome" where
  "send_confidence_level_dummy_message lnk s =
     (case data s of
        None \<Rightarrow> (s, [], [])
      | Some d \<Rightarrow>
          let c = tracker_confidence d in
          if 0 \<le> c \<and> c \<le> 3 then
            let confidence_str = pose_data_confidence_level ! nat c;
                confidence_percent = real_of_int (c * 100) / 3;
                msg = Vision_position_delta confidence_percent
            in
              if \<not> lnk msg then (s, [], [Info_tracking_confidence confidence_str, Error_confidence])
              else if current_confidence s = None \<or> current_confidence s \<noteq> Some c then
                let s' = s\<lparr>current_confidence := Some c\<rparr>;
                    status_msg = Statustext MAV_SEVERITY_INFO (''Tracking confidence: '' @ confidence_str)
                in
                  if lnk status_msg
                  then (s', [msg, status_msg], [Info_tracking_confidence confidence_str])
                  else (s', [msg], [Info_tracking_confidence confidence_str, Error_confidence])
              else (s, [msg], [Info_tracking_confidence confidence_str])
          else (s, [], [Warning_invalid_confidence c]))"

text \<open>
  Feeding a sequence of pose samples through the task: the acquisition loop stores each
  sample in \<open>data\<close>, then the task ticks once. The messages of all ticks are
  collected in order.
\<close>

fun confidence_ticks :: "link \<Rightarrow> state \<Rightarrow> pose_data list \<Rightarrow> state \<times> mav_msg list" where
  "confidence_ticks lnk s [] = (s, [])"
| "confidence_ticks lnk s (d # ds) =
     (case send_confidence_level_dummy_message lnk (s\<lparr>data := Some d\<rparr>) of
        (s', msgs, logs) \<Rightarrow>
          (case confidence_ticks lnk s' ds of (s'', rest) \<Rightarrow> (s'', msgs @ rest)))"

fun is_statustext :: "mav_msg \<Rightarrow> bool" where
  "is_statustext (Statustext sev txt) = True"
| "is_statustext m = False"

text \<open>A pose sample that carries the given confidence level.\<close>

definition sample_with_confidence :: "int \<Rightarrow> pose_data" where
  "sample_with_confidence c =
     \<lparr>translation = (0, 0, 0), rotation = (1, 0, 0, 0), tracker_confidence = c\<rparr>"

definition always_ok :: link where
  "always_ok m = True"

section \<open>The landing-target task\<close>

text \<open>
  \<open>math.atan2(y, x)\<close> over the reals: the angle of the point \<open>(x, y)\<close> in
  \<open>(-pi, pi]\<close>, and 0 at the origin.
\<close>

definition atan2 :: "real \<Rightarrow> real \<Rightarrow> real" where
  "atan2 y x =
     (if 0 < x then arctan (y / x)
      else if x < 0 \<and> 0 \<le> y then arctan (y / x) + pi
      else if x < 0 \<and> y < 0 then arctan (y / x) - pi
      else if 0 < y then pi / 2
      else if y < 0 then - (pi / 2)
      else 0)"

text \<open>
  The task reads the globals and writes none. Its statements outside the \<open>try\<close>
  block (three reads of the 4x4 array, the comparison, \<open>atan2\<close> and the square
  root of a sum of squares) cannot raise, and the block catches every exception of the
  link: the task always returns, so its result has no error case.
\<close>

definition send_land_target_message :: "link \<Rightarrow> state \<Rightarrow> outcome" where
  "send_land_target_message lnk s =
     (case H_camera_tag s of
        Some H \<Rightarrow>
          if is_landing_tag_detected s then
            let x = mat_get H 0 3;
                y = mat_get H 1 3;
                z = mat_get H 2 3
            in
              if z = 0 then (s, [], [Warning_z_zero])
              else
                let x_offset_rad = atan2 x z;
                    y_offset_rad = atan2 y z;
                    distance = sqrt (x * x + y * y + z * z);
                    msg = Landing_target (current_time s) x_offset_rad y_offset_rad distance
                in if lnk msg then (s, [msg], []) else (s, [], [Error_landing_target])
          else (s, [], [])
      | None \<Rightarrow> (s, [], []))"

section \<open>Tag handling in the acquisition loop\<close>

text \<open>
  The transform written for a matching tag: \<open>tf.euler_matrix(0, 0, 0, 'sxyz')\<close> with
  the three entries of its last column overwritten by \<open>tag.pose_t\<close>.
\<close>

definition tag_transform :: "tag \<Rightarrow> mat4" where
  "tag_transform t =
     (case pose_t t of (tx, ty, tz) \<Rightarrow>
        mat_set (mat_set (mat_set (euler_matrix 0 0 0) 0 3 tx) 1 3 ty) 2 3 tz)"

text \<open>The body of \<open>for tag in tags\<close>: no \<open>break\<close>, every tag is visited.\<close>

fun tag_loop :: "config \<Rightarrow> tag list \<Rightarrow> state \<Rightarrow> state" where
  "tag_loop cfg [] s = s"
| "tag_loop cfg (t # ts) s =
     tag_loop cfg ts
       (if tag_id t = tag_landing_id cfg
        then s\<lparr>is_landing_tag_detected := True, H_camera_tag := Some (tag_transform t)\<rparr>
        else s)"

text \<open>\<open>if tags: ... else: is_landing_tag_detected = False\<close>.\<close>

definition handle_tags :: "config \<Rightarrow> tag list \<Rightarrow> state \<Rightarrow> state" where
  "handle_tags cfg tags s =
     (if tags \<noteq> [] then tag_loop cfg tags s
      else s\<lparr>is_landing_tag_detected := False\<rparr>)"

text \<open>The translation stored in a transform: the entries \<open>[0][3], [1][3], [2][3]\<close>.\<close>

definition translation_of :: "mat4 \<Rightarrow> real \<times> real \<times> real" where
  "translation_of H = (mat_get H 0 3, mat_get H 1 3, mat_get H 2 3)"

section \<open>The attitude listener\<close>

definition att_msg_callback :: "attitude \<Rightarrow> state \<Rightarrow> state \<times> log_entry list" where
  "att_msg_callback v s =
     (if heading_north_yaw s = None
      then (s\<lparr>heading_north_yaw := Some (yaw v)\<rparr>, [Info_first_attitude (yaw v)])
      else (s\<lparr>heading_north_yaw := Some (yaw v)\<rparr>, [Debug_updated_heading (yaw v)]))"

text \<open>
  The listener is registered only \<open>if compass_enabled == 1\<close>; an ATTITUDE message
  reaches the globals only then.
\<close>

definition deliver_attitude :: "config \<Rightarrow> attitude \<Rightarrow> state \<Rightarrow> state" where
  "deliver_attitude cfg v s =
     (if compass_enabled cfg = 1 then fst (att_msg_callback v s) else s)"

text \<open>A sequence of ATTITUDE messages delivered to the callback, in order.\<close>

fun att_msgs :: "attitude list \<Rightarrow> state \<Rightarrow> state" where
  "att_msgs [] s = s"
| "att_msgs (v # vs) s = att_msgs vs (fst (att_msg_callback v s))"

section \<open>Pose processing in the acquisition loop\<close>

text \<open>
  The start-up choice of the two mount transforms. \<open>numpy.linalg.inv\<close> is taken as
  a parameter. An unsupported orientation ends the process (\<open>None\<close>).
\<close>

definition mount_to_nav :: mat4 where
  "mount_to_nav = Mat4 (Row4 0 0 (- 1) 0) (Row4 1 0 0 0) (Row4 0 (- 1) 0 0) (Row4 0 0 0 1)"

definition mount_transforms :: "(mat4 \<Rightarrow> mat4) \<Rightarrow> int \<Rightarrow> (mat4 \<times> mat4) option" where
  "mount_transforms linalg_inv camera_orientation =
     (if camera_orientation = 0 then Some (mount_to_nav, linalg_inv mount_to_nav)
      else if camera_orientation = 1 then
        Some (mount_to_nav,
              Mat4 (Row4 0 1 0 0) (Row4 1 0 0 0) (Row4 0 0 (- 1) 0) (Row4 0 0 0 1))
      else None)"

text \<open>
  The \<open>if pose:\<close> block of one iteration. \<open>now\<close> is the clock reading in
  microseconds. The three writes under \<open>frame_mutex\<close> read \<open>scale_factor\<close>
  once each; here, within one thread, they see the same global.
\<close>

definition process_pose :: "(mat4 \<Rightarrow> mat4) \<Rightarrow> config \<Rightarrow> int \<Rightarrow> pose_data \<Rightarrow> state \<Rightarrow> state" where
  "process_pose linalg_inv cfg now d s =
     (case translation d of (tx, ty, tz) \<Rightarrow>
        let H0 = quaternion_matrix (rotation d);
            H1 = mat_set H0 0 3 (tx * scale_factor s);
            H2 = mat_set H1 1 3 (ty * scale_factor s);
            H_T265Ref_T265body = mat_set H2 2 3 (tz * scale_factor s);
            N0 = dot (H_aeroRef_T265Ref cfg) (dot H_T265Ref_T265body (H_T265body_aeroBody cfg));
            N1 = (if body_offset_enabled cfg = 1 then
                    let B0 = euler_matrix 0 0 0;
                        B1 = mat_set B0 0 3 (body_offset_x cfg);
                        B2 = mat_set B1 1 3 (body_offset_y cfg);
                        H_body_camera = mat_set B2 2 3 (body_offset_z cfg);
                        H_camera_body = linalg_inv H_body_camera
                    in dot H_body_camera (dot N0 H_camera_body)
                  else N0);
            N2 = (if compass_enabled cfg = 1 \<and> heading_north_yaw s \<noteq> None
                  then dot N1 (euler_matrix 0 0 (the (heading_north_yaw s)))
                  else N1)
        in s\<lparr>current_time := now, data := Some d, H_aeroRef_aeroBody := Some N2\<rparr>)"

subsection \<open>The composition as the design states it\<close>

text \<open>
  The four steps of the Frame Converter, written from the design's words, to be
  compared with \<open>process_pose\<close>: the sensor-local transform, the three-fold
  composition, the conjugation by the offset transform, the right composition with a
  rotation about the z axis.
\<close>

definition with_translation :: "mat4 \<Rightarrow> real \<times> real \<times> real \<Rightarrow> mat4" where
  "with_translation H t =
     (case (H, t) of
        (Mat4 (Row4 a0 b0 c0 d0) (Row4 a1 b1 c1 d1) (Row4 a2 b2 c2 d2) r3, (tx, ty, tz)) \<Rightarrow>
          Mat4 (Row4 a0 b0 c0 tx) (Row4 a1 b1 c1 ty) (Row4 a2 b2 c2 tz) r3)"

definition sensor_local :: "real \<Rightarrow> pose_data \<Rightarrow> mat4" where
  "sensor_local k d =
     (case translation d of (tx, ty, tz) \<Rightarrow>
        with_translation (quaternion_matrix (rotation d)) (tx * k, ty * k, tz * k))"

definition offset_transform :: "config \<Rightarrow> mat4" where
  "offset_transform cfg =
     Mat4 (Row4 1 0 0 (body_offset_x cfg)) (Row4 0 1 0 (body_offset_y cfg))
          (Row4 0 0 1 (body_offset_z cfg)) (Row4 0 0 0 1)"

definition yaw_rotation :: "real \<Rightarrow> mat4" where
  "yaw_rotation a =
     Mat4 (Row4 (cos a) (- sin a) 0 0) (Row4 (sin a) (cos a) 0 0) (Row4 0 0 1 0) (Row4 0 0 0 1)"

definition nav_pose_composition ::
  "(mat4 \<Rightarrow> mat4) \<Rightarrow> config \<Rightarrow> real option \<Rightarrow> real \<Rightarrow> pose_data \<Rightarrow> mat4" where
  "nav_pose_composition inv_of cfg heading k d =
     (let composed = dot (H_aeroRef_T265Ref cfg) (dot (sensor_local k d) (H_T265body_aeroBody cfg));
          about_offset =
            (if body_offset_enabled cfg = 1
             then dot (offset_transform cfg) (dot composed (inv_of (offset_transform cfg)))
             else composed)
      in case heading of
           None \<Rightarrow> about_offset
         | Some a \<Rightarrow> dot about_offset (yaw_rotation a))"

text \<open>
  What the running script can do to the globals, as far as the heading is concerned:
  deliveries of ATTITUDE messages, pose processing, tag handling and the scheduled
  tasks, from the initial globals.
\<close>

inductive reachable :: "(mat4 \<Rightarrow> mat4) \<Rightarrow> config \<Rightarrow> state \<Rightarrow> bool"
  for linalg_inv :: "mat4 \<Rightarrow> mat4" and cfg :: config where
  reach_init: "reachable linalg_inv cfg initial_state"
| reach_attitude: "reachable linalg_inv cfg s \<Longrightarrow> reachable linalg_inv cfg (deliver_attitude cfg v s)"
| reach_pose: "reachable linalg_inv cfg s \<Longrightarrow> reachable linalg_inv cfg (process_pose linalg_inv cfg now d s)"
| reach_tags: "reachable linalg_inv cfg s \<Longrightarrow> reachable linalg_inv cfg (handle_tags cfg tags s)"
| reach_confidence:
    "reachable linalg_inv cfg s \<Longrightarrow> reachable linalg_inv cfg (fst (send_confidence_level_dummy_message lnk s))"
| reach_land_target:
    "reachable linalg_inv cfg s \<Longrightarrow> reachable linalg_inv cfg (fst (send_land_target_message lnk s))"
| reach_scale: "reachable linalg_inv cfg s \<Longrightarrow> reachable linalg_inv cfg (s\<lparr>scale_factor := k\<rparr>)"

text \<open>The module-level constants of the source, with the default camera orientation 1.\<close>

definition default_config :: config where
  "default_config =
     \<lparr>body_offset_enabled = 0, body_offset_x = 5 / 100, body_offset_y = 0,
      body_offset_z = 0, compass_enabled = 0, tag_landing_id = 0,
      H_aeroRef_T265Ref = mount_to_nav,
      H_T265body_aeroBody =
        Mat4 (Row4 0 1 0 0) (Row4 1 0 0 0) (Row4 0 0 (- 1) 0) (Row4 0 0 0 1)\<rparr>"

text \<open>
  The inverse of a transform whose rotation block is orthonormal: the block is
  transposed and the translation rotated back and negated. It stands for
  \<open>numpy.linalg.inv\<close> where a concrete inverse is needed.
\<close>

definition rigid_inv :: "mat4 \<Rightarrow> mat4" where
  "rigid_inv H =
     (case H of
        Mat4 (Row4 a0 b0 c0 tx) (Row4 a1 b1 c1 ty) (Row4 a2 b2 c2 tz) r3 \<Rightarrow>
          Mat4 (Row4 a0 a1 a2 (- (a0 * tx + a1 * ty + a2 * tz)))
               (Row4 b0 b1 b2 (- (b0 * tx + b1 * ty + b2 * tz)))
               (Row4 c0 c1 c2 (- (c0 * tx + c1 * ty + c2 * tz)))
               r3)"

section \<open>The scale factor under the frame mutex\<close>

text \<open>
  Two threads touch \<open>scale_factor\<close>: the acquisition loop reads it three times inside
  \<open>with frame_mutex\<close>, once per component, and \<open>scale_update\<close> assigns it inside
  \<open>with frame_mutex\<close>. Each thread is a program counter; a step of the system is one
  statement of one thread. Entering \<open>with frame_mutex\<close> is possible only while nobody
  holds the lock. The fields \<open>read_x\<close>, \<open>read_y\<close>, \<open>read_z\<close> record the value of
  \<open>scale_factor\<close> that each of the three writes read.

  The operator's line is carried as \<open>float(user_input)\<close> would give it: \<open>Some v\<close>, or
  \<open>None\<close> when the conversion raises ValueError. The conversion runs inside the
  block, so the ValueError leaves the block, which releases the lock, and the loop
  asks for the next line.
\<close>

datatype owner = Acquisition_loop | Scale_update

datatype main_pc = M_fetch | M_acquire | M_write_x | M_write_y | M_write_z | M_release

datatype calib_pc = C_input | C_acquire "real option" | C_assign "real option" | C_release

record sys =
  g_scale_factor :: real
  frame_mutex :: "owner option"
  mpc :: main_pc
  cpc :: calib_pc
  cur :: pose_data
  H_T265Ref_T265body :: mat4
  read_x :: real
  read_y :: real
  read_z :: real

definition initial_sys :: sys where
  "initial_sys =
     \<lparr>g_scale_factor = 1, frame_mutex = None, mpc = M_fetch, cpc = C_input,
      cur = \<lparr>translation = (0, 0, 0), rotation = (1, 0, 0, 0), tracker_confidence = 0\<rparr>,
      H_T265Ref_T265body = identity4, read_x = 1, read_y = 1, read_z = 1\<rparr>"

inductive step :: "sys \<Rightarrow> sys \<Rightarrow> bool" where
  main_fetch:
    "mpc s = M_fetch \<Longrightarrow>
     step s (s\<lparr>cur := d, H_T265Ref_T265body := quaternion_matrix (rotation d), mpc := M_acquire\<rparr>)"
| main_acquire:
    "mpc s = M_acquire \<Longrightarrow> frame_mutex s = None \<Longrightarrow>
     step s (s\<lparr>frame_mutex := Some Acquisition_loop, mpc := M_write_x\<rparr>)"
| main_write_x:
    "mpc s = M_write_x \<Longrightarrow>
     step s (s\<lparr>H_T265Ref_T265body :=
                 mat_set (H_T265Ref_T265body s) 0 3 (fst (translation (cur s)) * g_scale_factor s),
               read_x := g_scale_factor s, mpc := M_write_y\<rparr>)"
| main_write_y:
    "mpc s = M_write_y \<Longrightarrow>
     step s (s\<lparr>H_T265Ref_T265body :=
                 mat_set (H_T265Ref_T265body s) 1 3 (fst (snd (translation (cur s))) * g_scale_factor s),
               read_y := g_scale_factor s, mpc := M_write_z\<rparr>)"
| main_write_z:
    "mpc s = M_write_z \<Longrightarrow>
     step s (s\<lparr>H_T265Ref_T265body :=
                 mat_set (H_T265Ref_T265body s) 2 3 (snd (snd (translation (cur s))) * g_scale_factor s),
               read_z := g_scale_factor s, mpc := M_release\<rparr>)"
| main_release:
    "mpc s = M_release \<Longrightarrow> step s (s\<lparr>frame_mutex := None, mpc := M_fetch\<rparr>)"
| main_no_pose:
    "mpc s = M_fetch \<Longrightarrow> step s s"
| calib_input:
    "cpc s = C_input \<Longrightarrow> step s (s\<lparr>cpc := C_acquire u\<rparr>)"
| calib_acquire:
    "cpc s = C_acquire u \<Longrightarrow> frame_mutex s = None \<Longrightarrow>
     step s (s\<lparr>frame_mutex := Some Scale_update, cpc := C_assign u\<rparr>)"
| calib_assign:
    "cpc s = C_assign (Some v) \<Longrightarrow> step s (s\<lparr>g_scale_factor := v, cpc := C_release\<rparr>)"
| calib_value_error:
    "cpc s = C_assign None \<Longrightarrow> step s (s\<lparr>frame_mutex := None, cpc := C_input\<rparr>)"
| calib_release:
    "cpc s = C_release \<Longrightarrow> step s (s\<lparr>frame_mutex := None, cpc := C_input\<rparr>)"

inductive run :: "sys \<Rightarrow> bool" where
  run_init: "run initial_sys"
| run_step: "run s \<Longrightarrow> step s s' \<Longrightarrow> run s'"

text \<open>The statements between entering and leaving \<open>with frame_mutex\<close>.\<close>

fun main_in_critical :: "main_pc \<Rightarrow> bool" where
  "main_in_critical M_write_x = True"
| "main_in_critical M_write_y = True"
| "main_in_critical M_write_z = True"
| "main_in_critical M_release = True"
| "main_in_critical pc = False"

fun calib_in_critical :: "calib_pc \<Rightarrow> bool" where
  "calib_in_critical (C_assign u) = True"
| "calib_in_critical C_release = True"
| "calib_in_critical pc = False"

text \<open>
  Who may hold the lock: the acquisition loop exactly between its entry and its exit of
  the block, \<open>scale_update\<close> exactly between its own.
\<close>

definition lock_discipline :: "sys \<Rightarrow> bool" where
  "lock_discipline s =
     ((main_in_critical (mpc s) \<longleftrightarrow> frame_mutex s = Some Acquisition_loop)
      \<and> (calib_in_critical (cpc s) \<longleftrightarrow> frame_mutex s = Some Scale_update))"

text \<open>
  How far the acquisition loop has scaled the current sample: at each program counter,
  the entries written so far are the sample's components times the present value of
  \<open>scale_factor\<close>, and that value is the one each write read.
\<close>

definition scaled_so_far :: "sys \<Rightarrow> bool" where
  "scaled_so_far s =
     (let g = g_scale_factor s;
          Q = quaternion_matrix (rotation (cur s));
          tx = fst (translation (cur s));
          ty = fst (snd (translation (cur s)));
          tz = snd (snd (translation (cur s)))
      in case mpc s of
           M_fetch \<Rightarrow> True
         | M_acquire \<Rightarrow> H_T265Ref_T265body s = Q
         | M_write_x \<Rightarrow> H_T265Ref_T265body s = Q
         | M_write_y \<Rightarrow> H_T265Ref_T265body s = mat_set Q 0 3 (tx * g) \<and> read_x s = g
         | M_write_z \<Rightarrow>
             H_T265Ref_T265body s = mat_set (mat_set Q 0 3 (tx * g)) 1 3 (ty * g)
             \<and> read_x s = g \<and> read_y s = g
         | M_release \<Rightarrow>
             H_T265Ref_T265body s =
               mat_set (mat_set (mat_set Q 0 3 (tx * g)) 1 3 (ty * g)) 2 3 (tz * g)
             \<and> read_x s = g \<and> read_y s = g \<and> read_z s = g)"

section \<open>Properties of the confidence task\<close>

text \<open>One tick of the task on a link that accepts every message.\<close>

lemma tick_always_ok:
  "send_confidence_level_dummy_message always_ok s =
     (case data s of
        None \<Rightarrow> (s, [], [])
      | Some d \<Rightarrow>
          let c = tracker_confidence d in
          if 0 \<le> c \<and> c \<le> 3 then
            if current_confidence s \<noteq> Some c then
              (s\<lparr>current_confidence := Some c\<rparr>,
               [Vision_position_delta (real_of_int (c * 100) / 3),
                Statustext MAV_SEVERITY_INFO
                  (''Tracking confidence: '' @ pose_data_confidence_level ! nat c)],
               [Info_tracking_confidence (pose_data_confidence_level ! nat c)])
            else (s, [Vision_position_delta (real_of_int (c * 100) / 3)],
                  [Info_tracking_confidence (pose_data_confidence_level ! nat c)])
          else (s, [], [Warning_invalid_confidence c]))"
  by (auto simp: send_confidence_level_dummy_message_def Let_def always_ok_def
      split: option.splits)

text \<open>
  C4, as the claim states it, fails: from the initial globals, where no level has been
  emitted yet, the sequence 2, 2, 2, 3, 3, 1 on an accepting link does not give exactly
  two status notifications.
\<close>

theorem confidence_sequence_not_two:
  "length (filter is_statustext
     (snd (confidence_ticks always_ok initial_state
             (map sample_with_confidence [2, 2, 2, 3, 3, 1])))) \<noteq> 2"
  by (simp add: tick_always_ok Let_def sample_with_confidence_def initial_state_def)

text \<open>
  C4, amended: starting with no previously emitted level, the samples with levels
  2, 2, 2, 3, 3, 1 on an accepting link give exactly three status notifications, in
  this order: Medium for the first sample (nothing was emitted before it), High for
  the change from 2 to 3, Low for the change from 3 to 1. The repeated levels give
  none. In general a tick with a level in 0..3 issues a status notification exactly
  when that level is not the one emitted before, which includes the case that none
  was emitted yet.
\<close>

theorem confidence_sequence_three_notifications:
  assumes "current_confidence s = None"
    and "map tracker_confidence ds = [2, 2, 2, 3, 3, 1]"
  shows "filter is_statustext (snd (confidence_ticks always_ok s ds)) =
           [Statustext MAV_SEVERITY_INFO ''Tracking confidence: Medium'',
            Statustext MAV_SEVERITY_INFO ''Tracking confidence: High'',
            Statustext MAV_SEVERITY_INFO ''Tracking confidence: Low'']
         \<and> length (filter is_statustext (snd (confidence_ticks always_ok s ds))) = 3
         \<and> (data s' = Some d \<and> 0 \<le> tracker_confidence d \<and> tracker_confidence d \<le> 3 \<longrightarrow>
              (filter is_statustext
                 (fst (snd (send_confidence_level_dummy_message always_ok s'))) \<noteq> [])
              = (current_confidence s' \<noteq> Some (tracker_confidence d)))"
proof -
  from assms(2) obtain d1 d2 d3 d4 d5 d6 where ds: "ds = [d1, d2, d3, d4, d5, d6]"
    and c: "tracker_confidence d1 = 2" "tracker_confidence d2 = 2" "tracker_confidence d3 = 2"
      "tracker_confidence d4 = 3" "tracker_confidence d5 = 3" "tracker_confidence d6 = 1"
    by (auto simp: map_eq_Cons_conv)
  have "filter is_statustext (snd (confidence_ticks always_ok s ds)) =
           [Statustext MAV_SEVERITY_INFO ''Tracking confidence: Medium'',
            Statustext MAV_SEVERITY_INFO ''Tracking confidence: High'',
            Statustext MAV_SEVERITY_INFO ''Tracking confidence: Low'']"
    using assms(1) by (simp add: ds c tick_always_ok Let_def pose_data_confidence_level_def)
  moreover have "(filter is_statustext
         (fst (snd (send_confidence_level_dummy_message always_ok s'))) \<noteq> [])
       = (current_confidence s' \<noteq> Some (tracker_confidence d))"
    if "data s' = Some d" "0 \<le> tracker_confidence d" "tracker_confidence d \<le> 3"
    using that by (simp add: tick_always_ok Let_def)
  ultimately show ?thesis by simp
qed

theorem confidence_sequence_three_notifications_witness:
  "current_confidence initial_state = None
   \<and> map tracker_confidence (map sample_with_confidence [2, 2, 2, 3, 3, 1]) = [2, 2, 2, 3, 3, 1]
   \<and> length (filter is_statustext
        (snd (confidence_ticks always_ok initial_state
                (map sample_with_confidence [2, 2, 2, 3, 3, 1])))) = 3"
  using confidence_sequence_three_notifications
          [of initial_state "map sample_with_confidence [2, 2, 2, 3, 3, 1]"]
  by (simp add: initial_state_def sample_with_confidence_def)

text \<open>
  C8: on a tick on which a pose sample exists, its level is one of 0..3 and the link
  accepts the message, the first message of the tick is the percentage
  \<open>level * 100 / 3\<close>, whatever level was emitted before. The only other message of
  the tick is the status notification, sent when the level differs from the one emitted
  before. The percentage lies between 0 and 100.
\<close>

theorem confidence_percentage_every_tick:
  assumes "data s = Some d"
    and "0 \<le> tracker_confidence d" and "tracker_confidence d \<le> 3"
    and "lnk (Vision_position_delta (real_of_int (tracker_confidence d) * 100 / 3))"
  shows "fst (snd (send_confidence_level_dummy_message lnk s)) =
           Vision_position_delta (real_of_int (tracker_confidence d) * 100 / 3) #
           filter lnk
             (if current_confidence s = Some (tracker_confidence d) then []
              else [Statustext MAV_SEVERITY_INFO
                      (''Tracking confidence: '' @
                       pose_data_confidence_level ! nat (tracker_confidence d))])
         \<and> 0 \<le> real_of_int (tracker_confidence d) * 100 / 3
         \<and> real_of_int (tracker_confidence d) * 100 / 3 \<le> 100"
  using assms by (auto simp: send_confidence_level_dummy_message_def Let_def)

text \<open>
  The four levels at work: level 0 with nothing emitted before, and levels 1, 2, 3
  with the same level emitted before, give 0, 100/3, 200/3 and 100.
\<close>

theorem confidence_percentage_every_tick_witness:
  "fst (snd (send_confidence_level_dummy_message always_ok
        (initial_state\<lparr>data := Some (sample_with_confidence 0)\<rparr>))) =
     [Vision_position_delta 0, Statustext MAV_SEVERITY_INFO ''Tracking confidence: Failed'']
   \<and> fst (snd (send_confidence_level_dummy_message always_ok
        (initial_state\<lparr>data := Some (sample_with_confidence 1), current_confidence := Some 1\<rparr>))) =
     [Vision_position_delta (100 / 3)]
   \<and> fst (snd (send_confidence_level_dummy_message always_ok
        (initial_state\<lparr>data := Some (sample_with_confidence 2), current_confidence := Some 2\<rparr>))) =
     [Vision_position_delta (200 / 3)]
   \<and> fst (snd (send_confidence_level_dummy_message always_ok
        (initial_state\<lparr>data := Some (sample_with_confidence 3), current_confidence := Some 3\<rparr>))) =
     [Vision_position_delta 100]"
  using confidence_percentage_every_tick
          [of "initial_state\<lparr>data := Some (sample_with_confidence 0)\<rparr>"
              "sample_with_confidence 0" always_ok]
        confidence_percentage_every_tick
          [of "initial_state\<lparr>data := Some (sample_with_confidence 1), current_confidence := Some 1\<rparr>"
              "sample_with_confidence 1" always_ok]
        confidence_percentage_every_tick
          [of "initial_state\<lparr>data := Some (sample_with_confidence 2), current_confidence := Some 2\<rparr>"
              "sample_with_confidence 2" always_ok]
        confidence_percentage_every_tick
          [of "initial_state\<lparr>data := Some (sample_with_confidence 3), current_confidence := Some 3\<rparr>"
              "sample_with_confidence 3" always_ok]
  by (simp add: sample_with_confidence_def initial_state_def always_ok_def
        pose_data_confidence_level_def)

text \<open>
  C10: when the latest sample's level is below 0 or above 3, the tick hands nothing to
  the link, neither the percentage nor a status notification; it logs one warning and
  leaves the globals, the last emitted level among them, as they were.
\<close>

theorem confidence_invalid_level_is_silent:
  assumes "data s = Some d"
    and "tracker_confidence d < 0 \<or> 3 < tracker_confidence d"
  shows "send_confidence_level_dummy_message lnk s =
           (s, [], [Warning_invalid_confidence (tracker_confidence d)])
         \<and> current_confidence (fst (send_confidence_level_dummy_message lnk s)) =
             current_confidence s"
  using assms by (auto simp: send_confidence_level_dummy_message_def Let_def)

theorem confidence_invalid_level_is_silent_witness:
  "send_confidence_level_dummy_message always_ok
     (initial_state\<lparr>data := Some (sample_with_confidence 4)\<rparr>) =
     (initial_state\<lparr>data := Some (sample_with_confidence 4)\<rparr>, [],
      [Warning_invalid_confidence 4])
   \<and> send_confidence_level_dummy_message always_ok
        (initial_state\<lparr>data := Some (sample_with_confidence (- 1)),
           current_confidence := Some 2\<rparr>) =
     (initial_state\<lparr>data := Some (sample_with_confidence (- 1)), current_confidence := Some 2\<rparr>,
      [], [Warning_invalid_confidence (- 1)])"
  using confidence_invalid_level_is_silent
          [of "initial_state\<lparr>data := Some (sample_with_confidence 4)\<rparr>"
              "sample_with_confidence 4" always_ok]
        confidence_invalid_level_is_silent
          [of "initial_state\<lparr>data := Some (sample_with_confidence (- 1)),
                 current_confidence := Some 2\<rparr>"
              "sample_with_confidence (- 1)" always_ok]
  by (simp add: sample_with_confidence_def)

section \<open>Properties of the landing-target task\<close>

lemma euler_matrix_zero: "euler_matrix 0 0 0 = identity4"
  by (simp add: euler_matrix_def identity4_def)

lemma translation_of_tag_transform: "translation_of (tag_transform t) = pose_t t"
  by (cases "pose_t t")
    (simp add: tag_transform_def translation_of_def mat_get_def euler_matrix_zero identity4_def)

text \<open>
  C6: when the landing tag is flagged as detected, the stored translation is
  \<open>(x, y, z)\<close> with \<open>z\<close> nonzero and the link accepts the message, the task sends
  exactly one landing-target message, with the angular offsets \<open>atan2 x z\<close> and
  \<open>atan2 y z\<close> and the distance \<open>sqrt (x^2 + y^2 + z^2)\<close>.
\<close>

theorem land_target_bearing_and_range:
  assumes "H_camera_tag s = Some H" and "is_landing_tag_detected s"
    and "translation_of H = (x, y, z)" and "z \<noteq> 0"
    and "lnk (Landing_target (current_time s) (atan2 x z) (atan2 y z)
               (sqrt (x\<^sup>2 + y\<^sup>2 + z\<^sup>2)))"
  shows "send_land_target_message lnk s =
           (s, [Landing_target (current_time s) (atan2 x z) (atan2 y z)
                  (sqrt (x\<^sup>2 + y\<^sup>2 + z\<^sup>2))], [])"
  using assms
  by (simp add: send_land_target_message_def Let_def translation_of_def power2_eq_square)

text \<open>
  The translation (0.1, 0.0, 2.0), stored by the acquisition loop for a detected
  landing tag: the offsets are \<open>atan2 0.1 2\<close> and 0, the distance is
  \<open>sqrt (0.1^2 + 0^2 + 2^2)\<close>.
\<close>

theorem land_target_bearing_and_range_witness:
  "send_land_target_message always_ok
     (handle_tags default_config [\<lparr>tag_id = 0, pose_t = (1 / 10, 0, 2)\<rparr>] initial_state) =
   (handle_tags default_config [\<lparr>tag_id = 0, pose_t = (1 / 10, 0, 2)\<rparr>] initial_state,
    [Landing_target 0 (atan2 (1 / 10) 2) 0 (sqrt ((1 / 10)\<^sup>2 + 0\<^sup>2 + 2\<^sup>2))], [])"
  using land_target_bearing_and_range
    [of "handle_tags default_config [\<lparr>tag_id = 0, pose_t = (1 / 10, 0, 2)\<rparr>] initial_state"
        "tag_transform \<lparr>tag_id = 0, pose_t = (1 / 10, 0, 2)\<rparr>" "1 / 10" 0 2 always_ok]
  by (simp add: handle_tags_def default_config_def initial_state_def
        translation_of_tag_transform always_ok_def atan2_def)

text \<open>
  C7: when the stored translation has \<open>z = 0\<close>, the task returns normally with no
  message handed to the link and the globals exactly as they were, whatever the link
  would do; if the tag is flagged as detected it logs the warning. The task keeps no
  state of its own, so the next tick starts from the same globals.
\<close>

theorem land_target_zero_z_withheld:
  assumes "H_camera_tag s = Some H" and "mat_get H 2 3 = 0"
  shows "send_land_target_message lnk s =
           (s, [], if is_landing_tag_detected s then [Warning_z_zero] else [])"
  using assms by (simp add: send_land_target_message_def Let_def)

theorem land_target_zero_z_withheld_witness:
  "send_land_target_message always_ok
     (handle_tags default_config [\<lparr>tag_id = 0, pose_t = (1 / 10, 0, 0)\<rparr>] initial_state) =
   (handle_tags default_config [\<lparr>tag_id = 0, pose_t = (1 / 10, 0, 0)\<rparr>] initial_state,
    [], [Warning_z_zero])"
  using land_target_zero_z_withheld
    [of "handle_tags default_config [\<lparr>tag_id = 0, pose_t = (1 / 10, 0, 0)\<rparr>] initial_state"
        "tag_transform \<lparr>tag_id = 0, pose_t = (1 / 10, 0, 0)\<rparr>" always_ok]
    translation_of_tag_transform [of "\<lparr>tag_id = 0, pose_t = (1 / 10, 0, 0)\<rparr>"]
  by (simp add: handle_tags_def default_config_def initial_state_def translation_of_def)

section \<open>Properties of the tag handling\<close>

lemma tag_loop_no_match:
  "filter (\<lambda>t. tag_id t = tag_landing_id cfg) tags = [] \<Longrightarrow> tag_loop cfg tags s = s"
  by (induction tags arbitrary: s) (auto split: if_splits)

lemma tag_loop_last_match:
  "filter (\<lambda>t. tag_id t = tag_landing_id cfg) tags \<noteq> [] \<Longrightarrow>
   tag_loop cfg tags s =
     s\<lparr>is_landing_tag_detected := True,
       H_camera_tag :=
         Some (tag_transform (last (filter (\<lambda>t. tag_id t = tag_landing_id cfg) tags)))\<rparr>"
proof (induction tags arbitrary: s)
  case Nil
  then show ?case by simp
next
  case (Cons t ts)
  show ?case
  proof (cases "filter (\<lambda>t. tag_id t = tag_landing_id cfg) ts = []")
    case True
    with Cons.prems show ?thesis
      by (auto simp: tag_loop_no_match split: if_splits)
  next
    case False
    with Cons.IH show ?thesis by simp
  qed
qed

text \<open>
  C2, on the code: after a frame in which the landing tag (id 0) was detected, a frame
  whose only detection is a tag with id 7 holds no tag of the configured id, and yet
  the detected flag is still set after it. The flag is cleared only when the detector
  returns no tag at all.
\<close>

theorem flag_survives_foreign_tag:
  "is_landing_tag_detected
     (handle_tags default_config [\<lparr>tag_id = 7, pose_t = (0, 0, 1)\<rparr>]
        (handle_tags default_config [\<lparr>tag_id = 0, pose_t = (1 / 10, 0, 2)\<rparr>] initial_state))"
  by (simp add: handle_tags_def default_config_def)

text \<open>
  C3, as the claim states it, fails: with two detections of the configured id in one
  frame, translations (1, 2, 3) and then (4, 5, 6), the stored translation is not the
  first one's.
\<close>

theorem first_matching_tag_not_resolved:
  "map_option translation_of
     (H_camera_tag (handle_tags default_config
        [\<lparr>tag_id = 0, pose_t = (1, 2, 3)\<rparr>, \<lparr>tag_id = 0, pose_t = (4, 5, 6)\<rparr>] initial_state))
   \<noteq> Some (pose_t \<lparr>tag_id = 0, pose_t = (1, 2, 3)\<rparr>)"
  by (simp add: handle_tags_def default_config_def translation_of_tag_transform)

text \<open>
  C3, amended: when one or more detections of a frame carry the configured id, the
  stored transform is the one built from the last of them in the detector's order, its
  translation is that detection's \<open>pose_t\<close>, and the detected flag is set. Every
  earlier matching detection is overwritten.
\<close>

theorem last_matching_tag_resolved:
  assumes "filter (\<lambda>t. tag_id t = tag_landing_id cfg) tags \<noteq> []"
  shows "H_camera_tag (handle_tags cfg tags s) =
           Some (tag_transform (last (filter (\<lambda>t. tag_id t = tag_landing_id cfg) tags)))
         \<and> map_option translation_of (H_camera_tag (handle_tags cfg tags s)) =
             Some (pose_t (last (filter (\<lambda>t. tag_id t = tag_landing_id cfg) tags)))
         \<and> is_landing_tag_detected (handle_tags cfg tags s)"
proof -
  from assms have "tags \<noteq> []" by auto
  with assms show ?thesis
    by (simp add: handle_tags_def tag_loop_last_match translation_of_tag_transform)
qed

theorem last_matching_tag_resolved_witness:
  "map_option translation_of
     (H_camera_tag (handle_tags default_config
        [\<lparr>tag_id = 0, pose_t = (1, 2, 3)\<rparr>, \<lparr>tag_id = 7, pose_t = (9, 9, 9)\<rparr>,
         \<lparr>tag_id = 0, pose_t = (4, 5, 6)\<rparr>] initial_state))
   = Some (4, 5, 6)"
  using last_matching_tag_resolved
    [of default_config "[\<lparr>tag_id = 0, pose_t = (1, 2, 3)\<rparr>, \<lparr>tag_id = 7, pose_t = (9, 9, 9)\<rparr>,
         \<lparr>tag_id = 0, pose_t = (4, 5, 6)\<rparr>]" initial_state]
  by (simp add: default_config_def translation_of_tag_transform)

text \<open>
  The part of C2 that the code keeps: a frame with no detection of the configured id
  leaves the stored transform as it was.
\<close>

theorem geometry_retained_without_match:
  assumes "filter (\<lambda>t. tag_id t = tag_landing_id cfg) tags = []"
  shows "H_camera_tag (handle_tags cfg tags s) = H_camera_tag s"
  using assms by (simp add: handle_tags_def tag_loop_no_match)

theorem geometry_retained_without_match_witness:
  "H_camera_tag
     (handle_tags default_config [\<lparr>tag_id = 7, pose_t = (0, 0, 1)\<rparr>]
        (handle_tags default_config [\<lparr>tag_id = 0, pose_t = (1 / 10, 0, 2)\<rparr>] initial_state)) =
   Some (tag_transform \<lparr>tag_id = 0, pose_t = (1 / 10, 0, 2)\<rparr>)"
  using geometry_retained_without_match
    [of default_config "[\<lparr>tag_id = 7, pose_t = (0, 0, 1)\<rparr>]"
        "handle_tags default_config [\<lparr>tag_id = 0, pose_t = (1 / 10, 0, 2)\<rparr>] initial_state"]
  by (simp add: default_config_def handle_tags_def)

text \<open>A frame in which the detector returns nothing clears the detected flag.\<close>

theorem empty_frame_clears_flag:
  "is_landing_tag_detected (handle_tags cfg [] s) = False
   \<and> H_camera_tag (handle_tags cfg [] s) = H_camera_tag s"
  by (simp add: handle_tags_def)

section \<open>Properties of the attitude listener\<close>

text \<open>
  C1, on the code: two ATTITUDE messages, yaw 0.5 and then yaw 1, delivered to the
  callback from the initial globals leave the stored heading at 1, the second yaw, and
  not at 0.5, the first.
\<close>

theorem heading_relatched:
  "heading_north_yaw (att_msgs [\<lparr>yaw = 1 / 2\<rparr>, \<lparr>yaw = 1\<rparr>] initial_state) = Some 1
   \<and> heading_north_yaw (att_msgs [\<lparr>yaw = 1 / 2\<rparr>, \<lparr>yaw = 1\<rparr>] initial_state) \<noteq> Some (1 / 2)"
  by (simp add: att_msg_callback_def initial_state_def)

lemma att_msg_callback_sets: "heading_north_yaw (fst (att_msg_callback v s)) = Some (yaw v)"
  by (simp add: att_msg_callback_def)

text \<open>
  After any non-empty sequence of ATTITUDE messages delivered to the callback, the
  stored heading is the yaw of the last message.
\<close>

theorem heading_follows_last_attitude:
  assumes "vs \<noteq> []"
  shows "heading_north_yaw (att_msgs vs s) = Some (yaw (last vs))"
  using assms by (induction vs arbitrary: s) (auto simp: att_msg_callback_sets)

theorem heading_follows_last_attitude_witness:
  "heading_north_yaw (att_msgs [\<lparr>yaw = 1 / 2\<rparr>, \<lparr>yaw = 1\<rparr>, \<lparr>yaw = 2\<rparr>] initial_state) = Some 2"
  using heading_follows_last_attitude [of "[\<lparr>yaw = 1 / 2\<rparr>, \<lparr>yaw = 1\<rparr>, \<lparr>yaw = 2\<rparr>]" initial_state]
  by simp

section \<open>Properties of the matrix operations\<close>

lemma dot_identity_left: "dot identity4 H = H"
proof (cases H)
  case (Mat4 r0 r1 r2 r3)
  then show ?thesis
    by (cases r0; cases r1; cases r2; cases r3) (simp add: identity4_def)
qed

lemma dot_identity_right: "dot H identity4 = H"
proof (cases H)
  case (Mat4 r0 r1 r2 r3)
  then show ?thesis
    by (cases r0; cases r1; cases r2; cases r3) (simp add: identity4_def)
qed

lemma row_times_row_add: "row_times (row_add u v) B = row_add (row_times u B) (row_times v B)"
proof (cases B)
  case (Mat4 r0 r1 r2 r3)
  then show ?thesis
    by (cases u; cases v; cases r0; cases r1; cases r2; cases r3) (simp add: algebra_simps)
qed

lemma row_times_row_scale: "row_times (row_scale k u) B = row_scale k (row_times u B)"
proof (cases B)
  case (Mat4 r0 r1 r2 r3)
  then show ?thesis
    by (cases u; cases r0; cases r1; cases r2; cases r3) (simp add: algebra_simps)
qed

lemma row_times_dot: "row_times (row_times u A) B = row_times u (dot A B)"
proof (cases A)
  case (Mat4 r0 r1 r2 r3)
  then show ?thesis
    by (cases u) (simp add: row_times_row_add row_times_row_scale)
qed

text \<open>The product is associative, so a threefold composition needs no brackets.\<close>

lemma dot_assoc: "dot (dot A B) C = dot A (dot B C)"
  by (cases A) (simp add: row_times_dot)

text \<open>\<open>rigid_inv\<close> does invert the offset transform and the mount transform.\<close>

lemma offset_transform_inverse:
  "dot (offset_transform cfg) (rigid_inv (offset_transform cfg)) = identity4"
  by (simp add: offset_transform_def rigid_inv_def identity4_def)

lemma mount_to_nav_inverse: "dot mount_to_nav (rigid_inv mount_to_nav) = identity4"
  by (simp add: mount_to_nav_def rigid_inv_def identity4_def)

section \<open>Properties of the pose processing\<close>

lemma euler_matrix_yaw: "euler_matrix 0 0 a = yaw_rotation a"
  by (simp add: euler_matrix_def yaw_rotation_def Let_def)

lemma mat_set_translation:
  "mat_set (mat_set (mat_set H 0 3 a) (Suc 0) 3 b) 2 3 c = with_translation H (a, b, c)"
proof (cases H)
  case (Mat4 r0 r1 r2 r3)
  then show ?thesis
    by (cases r0; cases r1; cases r2) (simp add: with_translation_def)
qed

lemma offset_transform_built:
  "with_translation (euler_matrix 0 0 0) (body_offset_x cfg, body_offset_y cfg, body_offset_z cfg) =
     offset_transform cfg"
  by (simp add: euler_matrix_zero identity4_def with_translation_def offset_transform_def)

lemma quaternion_matrix_unit: "quaternion_matrix (1, 0, 0, 0) = identity4"
  by (simp add: quaternion_matrix_def tf_EPS_def Let_def identity4_def)

text \<open>
  The heading is written by the ATTITUDE listener alone, and the listener is registered
  only with the compass enabled: a stored heading implies the compass option.
\<close>

lemma heading_only_with_compass:
  "reachable linalg_inv cfg s \<Longrightarrow> heading_north_yaw s \<noteq> None \<Longrightarrow> compass_enabled cfg = 1"
proof (induction rule: reachable.induct)
  case reach_init
  then show ?case by (simp add: initial_state_def)
next
  case (reach_attitude s v)
  then show ?case by (simp add: deliver_attitude_def split: if_splits)
next
  case (reach_pose s now d)
  then show ?case by (simp add: process_pose_def Let_def split: prod.splits)
next
  case (reach_tags s tags)
  have "heading_north_yaw (tag_loop cfg ts t) = heading_north_yaw t" for ts t
    by (induction ts arbitrary: t) auto
  with reach_tags show ?case by (simp add: handle_tags_def split: if_splits)
next
  case (reach_confidence s lnk)
  then show ?case
    by (simp add: send_confidence_level_dummy_message_def Let_def split: option.splits if_splits)
next
  case (reach_land_target s lnk)
  then show ?case
    by (simp add: send_land_target_message_def Let_def split: option.splits if_splits)
next
  case (reach_scale s k)
  then show ?case by simp
qed

text \<open>
  C5: in every state the script can reach, processing a pose sample stores as
  navigation pose the composition of the design: the sensor-local transform (the
  quaternion's matrix with the translation times the scale factor), composed as
  mount-to-nav times sensor-local times sensor-body-to-autopilot-body, conjugated by
  the offset transform when the body offset is enabled, and multiplied on the right by
  the rotation about z by the heading when a heading is stored.
\<close>

theorem nav_pose_is_composition:
  assumes "reachable linalg_inv cfg s"
  shows "H_aeroRef_aeroBody (process_pose linalg_inv cfg now d s) =
           Some (nav_pose_composition linalg_inv cfg (heading_north_yaw s) (scale_factor s) d)"
proof -
  obtain tx ty tz where t: "translation d = (tx, ty, tz)"
    by (cases "translation d") auto
  show ?thesis
  proof (cases "heading_north_yaw s")
    case None
    then show ?thesis
      by (simp add: process_pose_def nav_pose_composition_def sensor_local_def t Let_def
          mat_set_translation offset_transform_built)
  next
    case (Some a)
    with assms have "compass_enabled cfg = 1"
      using heading_only_with_compass by fastforce
    with Some show ?thesis
      by (simp add: process_pose_def nav_pose_composition_def sensor_local_def t Let_def
          mat_set_translation offset_transform_built euler_matrix_yaw [of a])
  qed
qed

text \<open>
  With the compass and the body offset (5 cm along x) enabled, a heading of 0 stored by
  one ATTITUDE message, the downward mount, scale factor 1 and the sample at (1, 2, 3)
  with the unit quaternion, every step of the composition is taken.
\<close>

theorem nav_pose_is_composition_witness:
  "reachable rigid_inv (default_config\<lparr>body_offset_enabled := 1, compass_enabled := 1\<rparr>)
     (deliver_attitude (default_config\<lparr>body_offset_enabled := 1, compass_enabled := 1\<rparr>)
        \<lparr>yaw = 0\<rparr> initial_state)
   \<and> H_aeroRef_aeroBody
       (process_pose rigid_inv (default_config\<lparr>body_offset_enabled := 1, compass_enabled := 1\<rparr>) 42
          \<lparr>translation = (1, 2, 3), rotation = (1, 0, 0, 0), tracker_confidence = 3\<rparr>
          (deliver_attitude (default_config\<lparr>body_offset_enabled := 1, compass_enabled := 1\<rparr>)
             \<lparr>yaw = 0\<rparr> initial_state)) =
     Some (Mat4 (Row4 0 0 1 (- (59 / 20))) (Row4 0 1 0 1) (Row4 (- 1) 0 0 (- (39 / 20)))
             (Row4 0 0 0 1))"
proof -
  let ?cfg = "default_config\<lparr>body_offset_enabled := 1, compass_enabled := 1\<rparr>"
  have r: "reachable rigid_inv ?cfg (deliver_attitude ?cfg \<lparr>yaw = 0\<rparr> initial_state)"
    by (rule reach_attitude [OF reach_init])
  have h: "heading_north_yaw (deliver_attitude ?cfg \<lparr>yaw = 0\<rparr> initial_state) = Some 0"
    and k: "scale_factor (deliver_attitude ?cfg \<lparr>yaw = 0\<rparr> initial_state) = 1"
    by (simp_all add: deliver_attitude_def att_msg_callback_def default_config_def
        initial_state_def)
  have "nav_pose_composition rigid_inv ?cfg (Some 0) 1
          \<lparr>translation = (1, 2, 3), rotation = (1, 0, 0, 0), tracker_confidence = 3\<rparr> =
        Mat4 (Row4 0 0 1 (- (59 / 20))) (Row4 0 1 0 1) (Row4 (- 1) 0 0 (- (39 / 20)))
          (Row4 0 0 0 1)"
    by (simp add: nav_pose_composition_def sensor_local_def quaternion_matrix_unit identity4_def
        with_translation_def default_config_def mount_to_nav_def offset_transform_def
        rigid_inv_def yaw_rotation_def)
  with r h k nav_pose_is_composition [OF r, of 42] show ?thesis
    by simp
qed

section \<open>Properties of the scale factor under the frame mutex\<close>

lemma step_lock_discipline: "step s s' \<Longrightarrow> lock_discipline s \<Longrightarrow> lock_discipline s'"
  by (induction rule: step.induct) (auto simp: lock_discipline_def)

lemma step_scaled_so_far:
  "step s s' \<Longrightarrow> lock_discipline s \<Longrightarrow> scaled_so_far s \<Longrightarrow> scaled_so_far s'"
proof (induction rule: step.induct)
  case (calib_assign s v)
  then have "\<not> main_in_critical (mpc s)"
    by (auto simp: lock_discipline_def)
  with calib_assign show ?case
    by (cases "mpc s") (auto simp: scaled_so_far_def)
qed (auto simp: scaled_so_far_def Let_def split: main_pc.splits)

lemma run_invariant: "run s \<Longrightarrow> lock_discipline s \<and> scaled_so_far s"
proof (induction rule: run.induct)
  case run_init
  show ?case by (simp add: lock_discipline_def scaled_so_far_def initial_sys_def)
next
  case (run_step s s')
  then show ?case using step_lock_discipline step_scaled_so_far by blast
qed

text \<open>
  C9: in every state of every interleaving of the acquisition loop and
  \<open>scale_update\<close>, the two are never both inside their \<open>with frame_mutex\<close> blocks;
  and when the acquisition loop has written the three components, the three writes read
  one and the same value of \<open>scale_factor\<close>, still the present one, so that the
  transform is the sensor-local transform of the sample for that single value.
\<close>

theorem scale_factor_read_once:
  assumes "run s"
  shows "\<not> (main_in_critical (mpc s) \<and> calib_in_critical (cpc s))
         \<and> (mpc s = M_release \<longrightarrow>
              H_T265Ref_T265body s = sensor_local (g_scale_factor s) (cur s)
              \<and> read_x s = read_y s \<and> read_y s = read_z s \<and> read_z s = g_scale_factor s)"
proof -
  from assms have ld: "lock_discipline s" and sc: "scaled_so_far s"
    using run_invariant by auto
  from ld have "\<not> (main_in_critical (mpc s) \<and> calib_in_critical (cpc s))"
    by (auto simp: lock_discipline_def)
  moreover have "H_T265Ref_T265body s = sensor_local (g_scale_factor s) (cur s)
      \<and> read_x s = read_y s \<and> read_y s = read_z s \<and> read_z s = g_scale_factor s"
    if "mpc s = M_release"
    using sc that
    by (cases "translation (cur s)")
       (simp add: scaled_so_far_def Let_def sensor_local_def mat_set_translation)
  ultimately show ?thesis by blast
qed

text \<open>
  An interleaving that reaches the end of the block: the operator sets the scale to 2,
  the loop fetches the sample at (1, 2, 3) and enters the block, the operator types 5
  and waits for the lock, the loop writes the three components.
\<close>

lemma example_run:
  "run \<lparr>g_scale_factor = 2, frame_mutex = Some Acquisition_loop, mpc = M_release,
        cpc = C_acquire (Some 5),
        cur = \<lparr>translation = (1, 2, 3), rotation = (1, 0, 0, 0), tracker_confidence = 3\<rparr>,
        H_T265Ref_T265body =
          Mat4 (Row4 1 0 0 2) (Row4 0 1 0 4) (Row4 0 0 1 6) (Row4 0 0 0 1),
        read_x = 2, read_y = 2, read_z = 2\<rparr>"
proof -
  let ?d = "\<lparr>translation = (1, 2, 3), rotation = (1, 0, 0, 0), tracker_confidence = 3\<rparr>"
  let ?s1 = "initial_sys\<lparr>cpc := C_acquire (Some 2)\<rparr>"
  let ?s2 = "?s1\<lparr>frame_mutex := Some Scale_update, cpc := C_assign (Some 2)\<rparr>"
  let ?s3 = "?s2\<lparr>g_scale_factor := 2, cpc := C_release\<rparr>"
  let ?s4 = "?s3\<lparr>frame_mutex := None, cpc := C_input\<rparr>"
  let ?s5 = "?s4\<lparr>cur := ?d, H_T265Ref_T265body := quaternion_matrix (rotation ?d),
               mpc := M_acquire\<rparr>"
  let ?s6 = "?s5\<lparr>frame_mutex := Some Acquisition_loop, mpc := M_write_x\<rparr>"
  let ?s7 = "?s6\<lparr>cpc := C_acquire (Some 5)\<rparr>"
  let ?s8 = "?s7\<lparr>H_T265Ref_T265body :=
                 mat_set (H_T265Ref_T265body ?s7) 0 3
                   (fst (translation (cur ?s7)) * g_scale_factor ?s7),
               read_x := g_scale_factor ?s7, mpc := M_write_y\<rparr>"
  let ?s9 = "?s8\<lparr>H_T265Ref_T265body :=
                 mat_set (H_T265Ref_T265body ?s8) 1 3
                   (fst (snd (translation (cur ?s8))) * g_scale_factor ?s8),
               read_y := g_scale_factor ?s8, mpc := M_write_z\<rparr>"
  let ?s10 = "?s9\<lparr>H_T265Ref_T265body :=
                 mat_set (H_T265Ref_T265body ?s9) 2 3
                   (snd (snd (translation (cur ?s9))) * g_scale_factor ?s9),
               read_z := g_scale_factor ?s9, mpc := M_release\<rparr>"
  have "run ?s1"
    by (rule run_step [OF run_init], rule calib_input) (simp add: initial_sys_def)
  then have "run ?s2"
    by (rule run_step, intro calib_acquire) (simp_all add: initial_sys_def)
  then have "run ?s3"
    by (rule run_step, intro calib_assign) simp
  then have "run ?s4"
    by (rule run_step, intro calib_release) simp
  then have "run ?s5"
    by (rule run_step, intro main_fetch) (simp add: initial_sys_def)
  then have "run ?s6"
    by (rule run_step, intro main_acquire) simp_all
  then have "run ?s7"
    by (rule run_step, intro calib_input) simp
  then have "run ?s8"
    by (rule run_step, intro main_write_x) simp
  then have "run ?s9"
    by (rule run_step, intro main_write_y) simp
  then have "run ?s10"
    by (rule run_step, intro main_write_z) simp
  then show ?thesis
    by (simp add: initial_sys_def quaternion_matrix_unit identity4_def)
qed

theorem scale_factor_read_once_witness:
  "run \<lparr>g_scale_factor = 2, frame_mutex = Some Acquisition_loop, mpc = M_release,
        cpc = C_acquire (Some 5),
        cur = \<lparr>translation = (1, 2, 3), rotation = (1, 0, 0, 0), tracker_confidence = 3\<rparr>,
        H_T265Ref_T265body =
          Mat4 (Row4 1 0 0 2) (Row4 0 1 0 4) (Row4 0 0 1 6) (Row4 0 0 0 1),
        read_x = 2, read_y = 2, read_z = 2\<rparr>
   \<and> sensor_local 2 \<lparr>translation = (1, 2, 3), rotation = (1, 0, 0, 0), tracker_confidence = 3\<rparr> =
       Mat4 (Row4 1 0 0 2) (Row4 0 1 0 4) (Row4 0 0 1 6) (Row4 0 0 0 1)"
  using example_run scale_factor_read_once [OF example_run]
  by simp

end
